theory Spec2Isabelle
  imports Main "HOL-Library.Word"
begin

unbundle bit_operations_syntax

section \<open>Data model of the OpenCores PWM driver (drivers/pwm/pwm-ocores.c)\<close>

text \<open>
  The driver is built for a 64-bit kernel: \<open>u32\<close> registers, \<open>u64\<close> durations in
  nanoseconds, and \<open>void __iomem *\<close> pointers that are 64 bits wide and advance by
  bytes.
\<close>

type_synonym u32 = "32 word"
type_synonym u64 = "64 word"
type_synonym iomem = "64 word"

text \<open>
  Modelled from the spec: \<open>enum pwm_polarity\<close> and \<open>struct pwm_state\<close> are declared in
  the PWM framework's header, which is not among the sources. The spec gives the
  logical state as an unsigned period and duty cycle in nanoseconds, an enabled flag
  and a polarity; these are the fields the driver touches.
\<close>

datatype pwm_polarity = PWM_POLARITY_NORMAL | PWM_POLARITY_INVERSED

record pwm_state =
  period :: u64
  duty_cycle :: u64
  polarity :: pwm_polarity
  enabled :: bool

text \<open>
  \<open>struct ocores_pwm_data\<close>: one function pointer, which may be NULL.
  \<open>struct ocores_pwm_device\<close>: the \<open>data\<close> pointer itself may be NULL too (it is
  copied from the matched \<open>of_device_id\<close> entry); \<open>clk_rate\<close> is a \<open>u32\<close>.
\<close>

record ocores_pwm_data =
  get_ch_base :: "(iomem \<Rightarrow> u32 \<Rightarrow> iomem) option"

record ocores_pwm_device =
  data :: "ocores_pwm_data option"
  regs :: iomem
  clk_rate :: u32

text \<open>What stops a call instead of returning: the two undefined behaviours in reach.\<close>

datatype fault = NULL_POINTER_DEREFERENCE | DIVISION_BY_ZERO

section \<open>Register layout\<close>

definition REG_OCPWM_CNTR :: "iomem \<Rightarrow> iomem" where
  "REG_OCPWM_CNTR base = base"

definition REG_OCPWM_HRC :: "iomem \<Rightarrow> iomem" where
  "REG_OCPWM_HRC base = base + 0x4"

definition REG_OCPWM_LRC :: "iomem \<Rightarrow> iomem" where
  "REG_OCPWM_LRC base = base + 0x8"

definition REG_OCPWM_CTRL :: "iomem \<Rightarrow> iomem" where
  "REG_OCPWM_CTRL base = base + 0xC"

text \<open>
  Modelled from the spec: the macro \<open>BIT\<close> is declared in a kernel header that is not
  among the sources; the spec lists the control bits in the order of the driver's
  \<open>OCPWM_*\<close> definitions, bit \<open>n\<close> being \<open>1 << n\<close> as an \<open>unsigned long\<close>.
\<close>

definition BIT :: "nat \<Rightarrow> u64" where
  "BIT n = push_bit n 1"

definition OCPWM_EN :: u64 where "OCPWM_EN = BIT 0"
definition OCPWM_ECLK :: u64 where "OCPWM_ECLK = BIT 1"
definition OCPWM_NEC :: u64 where "OCPWM_NEC = BIT 2"
definition OCPWM_OE :: u64 where "OCPWM_OE = BIT 3"
definition OCPWM_SIGNLE :: u64 where "OCPWM_SIGNLE = BIT 4"
definition OCPWM_INTE :: u64 where "OCPWM_INTE = BIT 5"
definition OCPWM_INT :: u64 where "OCPWM_INT = BIT 6"
definition OCPWM_CNTRRST :: u64 where "OCPWM_CNTRRST = BIT 7"
definition OCPWM_CAPTE :: u64 where "OCPWM_CAPTE = BIT 8"

section \<open>Channel address resolution\<close>

text \<open>
  \<open>starfive_jh71x0_get_ch_base\<close>: the offset is computed in \<open>unsigned int\<close> and then
  added to the byte pointer.
\<close>

definition starfive_jh71x0_get_ch_base :: "iomem \<Rightarrow> u32 \<Rightarrow> iomem" where
  "starfive_jh71x0_get_ch_base base channel =
     base + ucast (if channel > 3 then channel mod 4 * 0x10 + push_bit 15 1
                   else channel * 0x10)"

text \<open>
  The initialiser of the local \<open>base\<close>, the same expression in \<open>ocores_pwm_get_state\<close>
  and \<open>ocores_pwm_apply\<close>: \<open>pwm->data->get_ch_base\<close> is read through \<open>pwm->data\<close>, and
  a NULL \<open>get_ch_base\<close> falls back to \<open>pwm->regs\<close>.
\<close>

definition ch_base :: "ocores_pwm_device \<Rightarrow> u32 \<Rightarrow> fault + iomem" where
  "ch_base pwm hwpwm =
     (case data pwm of
        None \<Rightarrow> Inl NULL_POINTER_DEREFERENCE
      | Some d \<Rightarrow>
          (case get_ch_base d of
             None \<Rightarrow> Inr (regs pwm)
           | Some f \<Rightarrow> Inr (f (regs pwm) hwpwm)))"

definition jh71x0_pwm_data :: ocores_pwm_data where
  "jh71x0_pwm_data = \<lparr>get_ch_base = Some starfive_jh71x0_get_ch_base\<rparr>"

section \<open>Memory-mapped registers\<close>

text \<open>
  Modelled from the spec: \<open>readl\<close> and \<open>writel\<close> are kernel accessors that are not
  among the sources; the spec describes a window of readable and writable 32-bit
  registers whose accesses always succeed. The window is a store from byte addresses to
  32-bit values; every access is also appended to a trace, so that "no register access"
  is a statement about the trace and not only about the final contents. The trace also
  records the framework calls of \<open>probe\<close>.
\<close>

datatype io_event =
    Readl iomem
  | Writel u32 iomem
  | Reset_control_deassert
  | Reset_control_assert
  | Clk_disable_unprepare
  | Dev_err_probe int
  | Dev_warn
  | Dev_err int
  | Devm_pwmchip_add int

record io =
  mem :: "iomem \<Rightarrow> u32"
  trace :: "io_event list"

definition readl :: "iomem \<Rightarrow> io \<Rightarrow> u32 \<times> io" where
  "readl addr s = (mem s addr, s\<lparr>trace := trace s @ [Readl addr]\<rparr>)"

definition writel :: "u32 \<Rightarrow> iomem \<Rightarrow> io \<Rightarrow> io" where
  "writel v addr s = s\<lparr>mem := (mem s)(addr := v), trace := trace s @ [Writel v addr]\<rparr>"

definition log_event :: "io_event \<Rightarrow> io \<Rightarrow> io" where
  "log_event e s = s\<lparr>trace := trace s @ [e]\<rparr>"

section \<open>Tick conversion\<close>

text \<open>
  Modelled from the spec: the constants \<open>NSEC_PER_SEC\<close>, \<open>EINVAL\<close> and \<open>ENOMEM\<close> are
  declared in kernel headers that are not among the sources. The spec converts with
  \<open>1_000_000_000\<close> nanoseconds in a second; the two error numbers are 22 and 12.
\<close>

definition NSEC_PER_SEC :: u64 where
  "NSEC_PER_SEC = 1000000000"

definition EINVAL :: int where "EINVAL = 22"
definition ENOMEM :: int where "ENOMEM = 12"

text \<open>
  Modelled from the spec: the macros \<open>do_div\<close> and \<open>DIV_ROUND_CLOSEST_ULL\<close> are
  declared in kernel headers that are not among the sources. The spec describes the
  conversion as rounding to nearest in 64-bit arithmetic: half the divisor is added to
  the 64-bit dividend, and the sum is divided by the divisor taken as an unsigned 32-bit
  value. The sum wraps at 64 bits like every \<open>unsigned long long\<close> addition, and a zero
  divisor is undefined.
\<close>

definition do_div :: "u64 \<Rightarrow> u64 \<Rightarrow> fault + u64" where
  "do_div n base =
     (let b = (ucast base :: u32)
      in if b = 0 then Inl DIVISION_BY_ZERO else Inr (n div ucast b))"

definition DIV_ROUND_CLOSEST_ULL :: "u64 \<Rightarrow> u64 \<Rightarrow> fault + u64" where
  "DIV_ROUND_CLOSEST_ULL x divisor = do_div (x + divisor div 2) divisor"

section \<open>Reading the state: \<open>ocores_pwm_get_state\<close>\<close>

text \<open>
  The out-parameter \<open>state\<close> is passed in and returned updated, next to the return code
  and the register window.
\<close>

definition ocores_pwm_get_state ::
    "ocores_pwm_device \<Rightarrow> u32 \<Rightarrow> pwm_state \<Rightarrow> io \<Rightarrow> fault + (int \<times> pwm_state \<times> io)" where
  "ocores_pwm_get_state pwm hwpwm state s =
     (case ch_base pwm hwpwm of
        Inl f \<Rightarrow> Inl f
      | Inr base \<Rightarrow>
          (let (period_data, s1) = readl (REG_OCPWM_LRC base) s;
               (duty_data, s2) = readl (REG_OCPWM_HRC base) s1;
               (ctrl_data, s3) = readl (REG_OCPWM_CTRL base) s2
           in case DIV_ROUND_CLOSEST_ULL (ucast period_data * NSEC_PER_SEC)
                     (ucast (clk_rate pwm)) of
                Inl f \<Rightarrow> Inl f
              | Inr p \<Rightarrow>
                  (case DIV_ROUND_CLOSEST_ULL (ucast duty_data * NSEC_PER_SEC)
                          (ucast (clk_rate pwm)) of
                     Inl f \<Rightarrow> Inl f
                   | Inr d \<Rightarrow>
                       Inr (0,
                            state\<lparr>period := p,
                                  duty_cycle := d,
                                  polarity := PWM_POLARITY_INVERSED,
                                  enabled := (ucast ctrl_data AND OCPWM_EN \<noteq> 0)\<rparr>,
                            s3))))"

section \<open>Writing the state: \<open>ocores_pwm_apply\<close>\<close>

text \<open>
  \<open>state->period * pwm->clk_rate\<close> is a \<open>u64\<close> product and wraps at 64 bits; the
  quotient is stored in a \<open>u32\<close> local and so loses its upper half. The control word
  is combined with the \<open>unsigned long\<close> bit masks and cut back to 32 bits by \<open>writel\<close>.
\<close>

definition ocores_pwm_apply ::
    "ocores_pwm_device \<Rightarrow> u32 \<Rightarrow> pwm_state \<Rightarrow> io \<Rightarrow> fault + (int \<times> io)" where
  "ocores_pwm_apply pwm hwpwm state s =
     (case ch_base pwm hwpwm of
        Inl f \<Rightarrow> Inl f
      | Inr base \<Rightarrow>
          if polarity state \<noteq> PWM_POLARITY_INVERSED then Inr (- EINVAL, s)
          else
            (case DIV_ROUND_CLOSEST_ULL (period state * ucast (clk_rate pwm)) NSEC_PER_SEC of
               Inl f \<Rightarrow> Inl f
             | Inr p \<Rightarrow>
                 (case DIV_ROUND_CLOSEST_ULL (duty_cycle state * ucast (clk_rate pwm))
                         NSEC_PER_SEC of
                    Inl f \<Rightarrow> Inl f
                  | Inr d \<Rightarrow>
                      (let period_data = (ucast p :: u32);
                           duty_data = (ucast d :: u32);
                           s1 = writel period_data (REG_OCPWM_LRC base) s;
                           s2 = writel duty_data (REG_OCPWM_HRC base) s1;
                           s3 = writel 0 (REG_OCPWM_CNTR base) s2;
                           (ctrl_data, s4) = readl (REG_OCPWM_CTRL base) s3;
                           s5 = (if enabled state
                                 then writel (ucast (ucast ctrl_data OR OCPWM_EN OR OCPWM_OE))
                                        (REG_OCPWM_CTRL base) s4
                                 else writel (ucast (ucast ctrl_data AND NOT (OCPWM_EN OR OCPWM_OE)))
                                        (REG_OCPWM_CTRL base) s4)
                       in Inr (0, s5)))))"

section \<open>Bring-up: \<open>ocores_pwm_probe\<close>\<close>

text \<open>
  The match table of the driver: the generic entry carries no \<open>.data\<close>, the StarFive
  entry points to \<open>jh71x0_pwm_data\<close>.
\<close>

definition ocores_pwm_of_match :: "(string \<times> ocores_pwm_data option) list" where
  "ocores_pwm_of_match =
     [(''opencores,pwm-ocores'', None),
      (''starfive,jh71x0-pwm'', Some jh71x0_pwm_data)]"

text \<open>
  Modelled from the spec: the platform framework that \<open>probe\<close> calls is not among the
  sources, so the outcome of each call is a field of the platform device: the
  compatible string of the device, whether \<open>devm_kzalloc\<close> returns NULL, the mapped
  register window or the error in the \<open>IS_ERR\<close> pointer, the enabled clock (given by
  the \<open>unsigned long\<close> that \<open>clk_get_rate\<close> returns for it) or the error in its
  pointer, and the return value of \<open>devm_pwmchip_add\<close>.
\<close>

record platform_device =
  compatible :: string
  kzalloc_fails :: bool
  ioremap_resource :: "int + iomem"
  clk_get_enabled :: "int + u64"
  pwmchip_add :: int

text \<open>
  Modelled from the spec: \<open>of_match_device\<close> belongs to the device framework, which is
  not among the sources; the spec says the variant data is looked up by the
  hardware-compatibility identifier string. The result is the \<open>.data\<close> pointer of the
  first matching entry.
\<close>

definition of_match_device ::
    "(string \<times> ocores_pwm_data option) list \<Rightarrow> platform_device \<Rightarrow> ocores_pwm_data option option" where
  "of_match_device table pdev = map_of table (compatible pdev)"

text \<open>
  \<open>probe\<close> returns its code, the driver data set by \<open>platform_set_drvdata\<close> (if any)
  and the register window with the trace of what was called.
\<close>

definition ocores_pwm_probe ::
    "platform_device \<Rightarrow> io \<Rightarrow> int \<times> ocores_pwm_device option \<times> io" where
  "ocores_pwm_probe pdev s =
     (case of_match_device ocores_pwm_of_match pdev of
        None \<Rightarrow> (- EINVAL, None, s)
      | Some id_data \<Rightarrow>
          if kzalloc_fails pdev then (- ENOMEM, None, s)
          else
            (case ioremap_resource pdev of
               Inl e \<Rightarrow> (e, None, log_event (Dev_err_probe e) s)
             | Inr r \<Rightarrow>
                 (case clk_get_enabled pdev of
                    Inl e \<Rightarrow> (e, None, log_event (Dev_err_probe e) s)
                  | Inr rate \<Rightarrow>
                      (let s1 = log_event Reset_control_deassert s;
                           pwm = \<lparr>data = id_data, regs = r, clk_rate = ucast rate\<rparr>
                       in if clk_rate pwm \<le> 0
                          then (- EINVAL, None, log_event Dev_warn s1)
                          else
                            (let ret = pwmchip_add pdev;
                                 s2 = log_event (Devm_pwmchip_add ret) s1
                             in if ret < 0
                                then (ret, None,
                                      log_event Reset_control_assert
                                        (log_event Clk_disable_unprepare
                                          (log_event (Dev_err ret) s2)))
                                else (0, Some pwm, s2))))))"

section \<open>The conversions as the specification words them\<close>

text \<open>
  Rounding to nearest of the quotient \<open>n / d\<close> of two natural numbers, halves upwards.
\<close>

definition round_to_nearest :: "nat \<Rightarrow> nat \<Rightarrow> nat" where
  "round_to_nearest n d = (n + d div 2) div d"

text \<open>The rounding unit of the round trip: \<open>ceil(1e9 / clk_rate)\<close>.\<close>

definition rounding_unit :: "nat \<Rightarrow> nat" where
  "rounding_unit rate = (1000000000 + rate - 1) div rate"

section \<open>Concrete devices, register windows and requests\<close>

text \<open>
  A StarFive controller on a 24 MHz clock, the controller that \<open>probe\<close> builds for the
  generic compatible string (its match entry has no \<open>.data\<close>), register windows and
  requests to evaluate the driver on, and two platform devices for \<open>probe\<close>.
\<close>

definition jh7110_pwm :: ocores_pwm_device where
  "jh7110_pwm = \<lparr>data = Some jh71x0_pwm_data, regs = 0x120D0000, clk_rate = 24000000\<rparr>"

definition generic_pwm :: ocores_pwm_device where
  "generic_pwm = \<lparr>data = None, regs = 0x120D0000, clk_rate = 24000000\<rparr>"

definition idle_window :: io where
  "idle_window = \<lparr>mem = (\<lambda>_. 0), trace = []\<rparr>"

definition inte_window :: io where
  "inte_window = \<lparr>mem = (\<lambda>_. 0)(0x120D000C := 0x20), trace = []\<rparr>"

definition running_window :: io where
  "running_window =
     \<lparr>mem = (\<lambda>_. 0)(0x120D0008 := 24000, 0x120D0004 := 6000, 0x120D000C := 9),
      trace = []\<rparr>"

definition ms_state :: pwm_state where
  "ms_state = \<lparr>period = 1000000, duty_cycle = 250000,
                polarity = PWM_POLARITY_INVERSED, enabled = True\<rparr>"

definition normal_state :: pwm_state where
  "normal_state = \<lparr>period = 1000000, duty_cycle = 250000,
                    polarity = PWM_POLARITY_NORMAL, enabled = True\<rparr>"

definition long_state :: pwm_state where
  "long_state = \<lparr>period = 200000000000, duty_cycle = 0,
                  polarity = PWM_POLARITY_INVERSED, enabled = True\<rparr>"

definition huge_state :: pwm_state where
  "huge_state = \<lparr>period = 1000000000000, duty_cycle = 0,
                  polarity = PWM_POLARITY_INVERSED, enabled = True\<rparr>"

definition zero_rate_pdev :: platform_device where
  "zero_rate_pdev =
     \<lparr>compatible = ''starfive,jh71x0-pwm'', kzalloc_fails = False,
      ioremap_resource = Inr 0x120D0000, clk_get_enabled = Inr 0, pwmchip_add = 0\<rparr>"

definition generic_pdev :: platform_device where
  "generic_pdev =
     \<lparr>compatible = ''opencores,pwm-ocores'', kzalloc_fails = False,
      ioremap_resource = Inr 0x120D0000, clk_get_enabled = Inr 24000000, pwmchip_add = 0\<rparr>"

section \<open>Words and bits\<close>

lemma unat_ucast_up: "unat (ucast (w::u32) :: u64) = unat w"
proof -
  have "unat w < 2 ^ 32" using unsigned_less [of w] by simp
  then have "unat w < 2 ^ 64" by simp
  then show ?thesis by (simp add: unsigned_ucast_eq take_bit_nat_eq_self)
qed

lemma ucast_down_up: "(ucast (ucast (w::u32) :: u64) :: u32) = w"
  by (simp add: ucast_up_ucast_id is_up)

lemma en_test: "(ucast (c::u32) AND OCPWM_EN \<noteq> 0) = bit c 0"
proof -
  have "(ucast c AND (1::u64)) = of_bool (odd (ucast c :: u64))"
    by (simp add: and_one_eq mod_2_eq_odd)
  moreover have "odd (ucast c :: u64) = bit (ucast c :: u64) 0"
    by (simp add: bit_0)
  moreover have "bit (ucast c :: u64) 0 = bit c 0"
    by (simp add: bit_ucast_iff)
  ultimately show ?thesis by (simp add: OCPWM_EN_def BIT_def)
qed

lemma ctrl_set_bits:
  "bit (ucast (ucast (c::u32) OR OCPWM_EN OR OCPWM_OE) :: u32) n
     = (n = 0 \<or> n = 3 \<or> bit c n)"
  unfolding OCPWM_EN_def OCPWM_OE_def BIT_def
  apply (simp only: bit_ucast_iff bit_or_iff bit_push_bit_iff bit_1_iff)
  apply (auto dest: bit_imp_le_length)
  done

lemma ctrl_clear_bits:
  "bit (ucast (ucast (c::u32) AND NOT (OCPWM_EN OR OCPWM_OE)) :: u32) n
     = (n \<noteq> 0 \<and> n \<noteq> 3 \<and> bit c n)"
  unfolding OCPWM_EN_def OCPWM_OE_def BIT_def
  apply (simp only: bit_ucast_iff bit_or_iff bit_and_iff bit_not_iff bit_push_bit_iff bit_1_iff)
  apply (auto dest: bit_imp_le_length)
  done

lemma ctrl_clear_bits_nf:
  "bit (ucast (ucast (c::u32) AND NOT OCPWM_EN AND NOT OCPWM_OE) :: u32) n
     = (n \<noteq> 0 \<and> n \<noteq> 3 \<and> bit c n)"
  unfolding OCPWM_EN_def OCPWM_OE_def BIT_def
  apply (simp only: bit_ucast_iff bit_or_iff bit_and_iff bit_not_iff bit_push_bit_iff bit_1_iff)
  apply (auto dest: bit_imp_le_length)
  done

lemma reg_distinct:
  "REG_OCPWM_LRC b \<noteq> REG_OCPWM_HRC b" "REG_OCPWM_LRC b \<noteq> REG_OCPWM_CNTR b"
  "REG_OCPWM_LRC b \<noteq> REG_OCPWM_CTRL b" "REG_OCPWM_HRC b \<noteq> REG_OCPWM_CNTR b"
  "REG_OCPWM_HRC b \<noteq> REG_OCPWM_CTRL b" "REG_OCPWM_CNTR b \<noteq> REG_OCPWM_CTRL b"
  by (simp_all add: REG_OCPWM_LRC_def REG_OCPWM_HRC_def REG_OCPWM_CNTR_def REG_OCPWM_CTRL_def)

section \<open>The address resolver\<close>

lemma word_gt3_iff: "(3 < (c::u32)) = (4 \<le> c)"
  by (auto simp add: word_less_nat_alt word_le_nat_alt)

lemma ucast_bank_offset:
  "ucast ((c::u32) mod 4 * 0x10 + 0x8000) = (ucast (c mod 4) * 0x10 + 0x8000 :: u64)"
proof -
  have "unat c mod 4 < 4" by simp
  then show ?thesis
    by (intro word_unat_eq_iff [THEN iffD2])
       (simp add: unat_ucast_up unat_word_ariths unat_mod)
qed

lemma ucast_flat_offset:
  assumes "(c::u32) < 4"
  shows "ucast (c * 0x10) = (ucast c * 0x10 :: u64)"
proof -
  have "unat c < 4" using assms by (simp add: word_less_nat_alt)
  then show ?thesis
    by (intro word_unat_eq_iff [THEN iffD2]) (simp add: unat_ucast_up unat_word_ariths)
qed

lemma jh71x0_upper:
  "4 \<le> c \<Longrightarrow>
   starfive_jh71x0_get_ch_base base c = base + ucast (c mod 4) * 0x10 + 0x8000"
  by (simp add: starfive_jh71x0_get_ch_base_def word_gt3_iff ucast_bank_offset add.assoc)

lemma jh71x0_lower:
  assumes "c < 4"
  shows "starfive_jh71x0_get_ch_base base c = base + ucast c * 0x10"
proof -
  have "\<not> 3 < c" using assms by (simp add: word_less_nat_alt)
  then show ?thesis
    by (simp add: starfive_jh71x0_get_ch_base_def ucast_flat_offset [OF assms])
qed

text \<open>A device whose match entry has no \<open>.data\<close> cannot resolve any channel.\<close>

lemma ch_base_null_data:
  "data pwm = None \<Longrightarrow> ch_base pwm hwpwm = Inl NULL_POINTER_DEREFERENCE"
  by (simp add: ch_base_def)

lemma ch_base_jh71x0:
  "data pwm = Some jh71x0_pwm_data \<Longrightarrow>
   ch_base pwm hwpwm = Inr (starfive_jh71x0_get_ch_base (regs pwm) hwpwm)"
  by (simp add: ch_base_def jh71x0_pwm_data_def)

section \<open>The rounding division\<close>

lemma div_closest_nsec:
  "DIV_ROUND_CLOSEST_ULL x NSEC_PER_SEC = Inr ((x + 500000000) div 1000000000)"
  by (simp add: DIV_ROUND_CLOSEST_ULL_def do_div_def NSEC_PER_SEC_def)

lemma div_closest_rate:
  "c \<noteq> 0 \<Longrightarrow>
   DIV_ROUND_CLOSEST_ULL x (ucast (c::u32)) = Inr ((x + ucast c div 2) div ucast c)"
  by (simp add: DIV_ROUND_CLOSEST_ULL_def do_div_def ucast_down_up)

text \<open>\<open>round_to_nearest n d\<close> is an integer nearest to \<open>n / d\<close>: it is off by at most \<open>d / 2\<close>.\<close>

lemma round_to_nearest_is_nearest:
  assumes "0 < d"
  shows "2 * (round_to_nearest n d * d) \<le> 2 * n + d \<and>
         2 * n \<le> 2 * (round_to_nearest n d * d) + d"
proof -
  let ?r = "round_to_nearest n d"
  have lo: "?r * d \<le> n + d div 2"
    unfolding round_to_nearest_def by (rule div_times_less_eq_dividend)
  have hi: "n + d div 2 < d + ?r * d"
    unfolding round_to_nearest_def using assms by (rule dividend_less_div_times)
  show ?thesis using lo hi by linarith
qed

lemma rounding_unit_covers:
  assumes "0 < c"
  shows "1000000000 \<le> rounding_unit c * c"
proof -
  have "1000000000 + c - 1 < c + rounding_unit c * c"
    unfolding rounding_unit_def using assms by (rule dividend_less_div_times)
  then show ?thesis using assms by linarith
qed

text \<open>Nanoseconds to ticks and back, on natural numbers.\<close>

lemma round_trip_nat:
  fixes p c :: nat
  assumes c: "0 < c"
  defines "t \<equiv> round_to_nearest (p * c) 1000000000"
  defines "q \<equiv> round_to_nearest (t * 1000000000) c"
  shows "q \<le> p + rounding_unit c \<and> p \<le> q + rounding_unit c"
proof -
  let ?U = "rounding_unit c"
  have t1: "2 * (t * 1000000000) \<le> 2 * (p * c) + 1000000000"
    and t2: "2 * (p * c) \<le> 2 * (t * 1000000000) + 1000000000"
    using round_to_nearest_is_nearest [of 1000000000 "p * c"] by (simp_all add: t_def)
  have q1: "2 * (q * c) \<le> 2 * (t * 1000000000) + c"
    and q2: "2 * (t * 1000000000) \<le> 2 * (q * c) + c"
    using round_to_nearest_is_nearest [OF c, of "t * 1000000000"] by (simp_all add: q_def)
  have U: "1000000000 \<le> ?U * c" using c by (rule rounding_unit_covers)
  have "q \<le> p + ?U"
  proof (rule ccontr)
    assume "\<not> q \<le> p + ?U"
    then have "p + ?U + 1 \<le> q" by simp
    then have "(p + ?U + 1) * c \<le> q * c" by (rule mult_le_mono1)
    then have "p * c + ?U * c + c \<le> q * c" by (simp add: algebra_simps)
    with t1 q1 U c show False by linarith
  qed
  moreover have "p \<le> q + ?U"
  proof (rule ccontr)
    assume "\<not> p \<le> q + ?U"
    then have "q + ?U + 1 \<le> p" by simp
    then have "(q + ?U + 1) * c \<le> p * c" by (rule mult_le_mono1)
    then have "q * c + ?U * c + c \<le> p * c" by (simp add: algebra_simps)
    with t2 q2 U c show False by linarith
  qed
  ultimately show ?thesis ..
qed

text \<open>
  The tick count of \<open>apply\<close> is the rounded quotient as long as that fits the 32-bit
  register; then neither the 64-bit product nor the sum wraps.
\<close>

lemma ticks_exact:
  fixes ns :: u64 and c :: u32
  assumes "round_to_nearest (unat ns * unat c) 1000000000 < 2 ^ 32"
  shows "unat (ucast ((ns * ucast c + 500000000) div 1000000000) :: u32)
           = round_to_nearest (unat ns * unat c) 1000000000"
proof -
  let ?N = "unat ns * unat c"
  have small: "(?N + 500000000) div 1000000000 < 4294967296"
    using assms by (simp add: round_to_nearest_def)
  then have bound: "?N + 500000000 < 4294967296 * 1000000000"
    by (simp add: div_less_iff_less_mult)
  have prod: "unat (ns * ucast c) = ?N"
    using bound by (simp add: unat_word_ariths unat_ucast_up)
  have sum: "unat (ns * ucast c + 500000000) = ?N + 500000000"
    using bound by (simp add: unat_word_ariths(1) prod)
  have quot: "unat ((ns * ucast c + 500000000) div 1000000000)
                = (?N + 500000000) div 1000000000"
    by (simp add: unat_div sum)
  have "unat (ucast ((ns * ucast c + 500000000) div 1000000000) :: u32)
          = (?N + 500000000) div 1000000000"
    using small by (simp add: unsigned_ucast_eq take_bit_nat_eq_self quot)
  then show ?thesis by (simp add: round_to_nearest_def)
qed

text \<open>The nanoseconds of \<open>get_state\<close> never wrap: a 32-bit count times \<open>10^9\<close> fits 64 bits.\<close>

lemma nanoseconds_exact:
  fixes t c :: u32
  assumes "c \<noteq> 0"
  shows "unat ((ucast t * 1000000000 + ucast c div 2) div ucast c :: u64)
           = round_to_nearest (unat t * 1000000000) (unat c)"
proof -
  have t: "unat t < 4294967296" using unsigned_less [of t] by simp
  have c: "unat c < 4294967296" using unsigned_less [of c] by simp
  have prod: "unat (ucast t * 1000000000 :: u64) = unat t * 1000000000"
    using t by (simp add: unat_word_ariths unat_ucast_up)
  have half: "unat (ucast c div 2 :: u64) = unat c div 2"
    by (simp add: unat_div unat_ucast_up)
  have sum: "unat (ucast t * 1000000000 + ucast c div 2 :: u64)
               = unat t * 1000000000 + unat c div 2"
    using t c by (simp add: unat_word_ariths(1) prod half)
  show ?thesis
    by (simp add: unat_div sum unat_ucast_up round_to_nearest_def)
qed

section \<open>What \<open>apply\<close> and \<open>get_state\<close> compute\<close>

lemma apply_rejected:
  assumes "ch_base pwm hwpwm = Inr base" "polarity state \<noteq> PWM_POLARITY_INVERSED"
  shows "ocores_pwm_apply pwm hwpwm state s = Inr (- EINVAL, s)"
  using assms by (simp add: ocores_pwm_apply_def)

lemma apply_accepted:
  assumes "ch_base pwm hwpwm = Inr base" "polarity state = PWM_POLARITY_INVERSED"
  shows "ocores_pwm_apply pwm hwpwm state s =
     Inr (0,
       s\<lparr>mem := (mem s)
           (REG_OCPWM_LRC base :=
              ucast ((period state * ucast (clk_rate pwm) + 500000000) div 1000000000),
            REG_OCPWM_HRC base :=
              ucast ((duty_cycle state * ucast (clk_rate pwm) + 500000000) div 1000000000),
            REG_OCPWM_CNTR base := 0,
            REG_OCPWM_CTRL base :=
              (if enabled state
               then ucast (ucast (mem s (REG_OCPWM_CTRL base)) OR OCPWM_EN OR OCPWM_OE)
               else ucast (ucast (mem s (REG_OCPWM_CTRL base))
                             AND NOT (OCPWM_EN OR OCPWM_OE)))),
         trace := trace s @
           [Writel (ucast ((period state * ucast (clk_rate pwm) + 500000000) div 1000000000))
              (REG_OCPWM_LRC base),
            Writel (ucast ((duty_cycle state * ucast (clk_rate pwm) + 500000000) div 1000000000))
              (REG_OCPWM_HRC base),
            Writel 0 (REG_OCPWM_CNTR base),
            Readl (REG_OCPWM_CTRL base),
            Writel
              (if enabled state
               then ucast (ucast (mem s (REG_OCPWM_CTRL base)) OR OCPWM_EN OR OCPWM_OE)
               else ucast (ucast (mem s (REG_OCPWM_CTRL base))
                             AND NOT (OCPWM_EN OR OCPWM_OE)))
              (REG_OCPWM_CTRL base)]\<rparr>)"
  using assms reg_distinct [of base]
  by (simp add: ocores_pwm_apply_def div_closest_nsec readl_def writel_def Let_def)

lemma get_state_returns:
  assumes "ch_base pwm hwpwm = Inr base" "clk_rate pwm \<noteq> 0"
  shows "ocores_pwm_get_state pwm hwpwm state s =
     Inr (0,
       state\<lparr>period :=
               (ucast (mem s (REG_OCPWM_LRC base)) * 1000000000 + ucast (clk_rate pwm) div 2)
                 div ucast (clk_rate pwm),
             duty_cycle :=
               (ucast (mem s (REG_OCPWM_HRC base)) * 1000000000 + ucast (clk_rate pwm) div 2)
                 div ucast (clk_rate pwm),
             polarity := PWM_POLARITY_INVERSED,
             enabled := bit (mem s (REG_OCPWM_CTRL base)) 0\<rparr>,
       s\<lparr>trace := trace s @
           [Readl (REG_OCPWM_LRC base), Readl (REG_OCPWM_HRC base),
            Readl (REG_OCPWM_CTRL base)]\<rparr>)"
  using assms
  by (simp add: ocores_pwm_get_state_def div_closest_rate readl_def en_test
                NSEC_PER_SEC_def Let_def)

text \<open>Outside these hypotheses the calls do not return.\<close>

lemma null_data_faults:
  assumes "data pwm = None"
  shows "ocores_pwm_get_state pwm hwpwm state s = Inl NULL_POINTER_DEREFERENCE"
    and "ocores_pwm_apply pwm hwpwm state s = Inl NULL_POINTER_DEREFERENCE"
  using assms
  by (simp_all add: ocores_pwm_get_state_def ocores_pwm_apply_def ch_base_def)

lemma get_state_zero_rate:
  assumes "ch_base pwm hwpwm = Inr base" "clk_rate pwm = 0"
  shows "ocores_pwm_get_state pwm hwpwm state s = Inl DIVISION_BY_ZERO"
  using assms
  by (simp add: ocores_pwm_get_state_def DIV_ROUND_CLOSEST_ULL_def do_div_def readl_def)

text \<open>The same two facts, read register by register.\<close>

lemma apply_effect:
  assumes "ch_base pwm hwpwm = Inr base" "polarity state = PWM_POLARITY_INVERSED"
  obtains s' c where
    "ocores_pwm_apply pwm hwpwm state s = Inr (0, s')"
    "mem s' (REG_OCPWM_LRC base) =
       ucast ((period state * ucast (clk_rate pwm) + 500000000) div 1000000000)"
    "mem s' (REG_OCPWM_HRC base) =
       ucast ((duty_cycle state * ucast (clk_rate pwm) + 500000000) div 1000000000)"
    "mem s' (REG_OCPWM_CNTR base) = 0"
    "mem s' (REG_OCPWM_CTRL base) = c"
    "\<And>n. bit c n =
       (if enabled state then n = 0 \<or> n = 3 \<or> bit (mem s (REG_OCPWM_CTRL base)) n
        else n \<noteq> 0 \<and> n \<noteq> 3 \<and> bit (mem s (REG_OCPWM_CTRL base)) n)"
    "trace s' = trace s @
       [Writel (ucast ((period state * ucast (clk_rate pwm) + 500000000) div 1000000000))
          (REG_OCPWM_LRC base),
        Writel (ucast ((duty_cycle state * ucast (clk_rate pwm) + 500000000) div 1000000000))
          (REG_OCPWM_HRC base),
        Writel 0 (REG_OCPWM_CNTR base),
        Readl (REG_OCPWM_CTRL base),
        Writel c (REG_OCPWM_CTRL base)]"
proof -
  note eq = apply_accepted [OF assms, of s]
  show thesis
    by (rule that [OF eq]) 
       (use reg_distinct [of base] in \<open>simp_all add: ctrl_set_bits ctrl_clear_bits_nf\<close>)
qed

lemma get_state_effect:
  assumes "ch_base pwm hwpwm = Inr base" "clk_rate pwm \<noteq> 0"
  obtains state' s' where
    "ocores_pwm_get_state pwm hwpwm state s = Inr (0, state', s')"
    "period state' =
       (ucast (mem s (REG_OCPWM_LRC base)) * 1000000000 + ucast (clk_rate pwm) div 2)
         div ucast (clk_rate pwm)"
    "duty_cycle state' =
       (ucast (mem s (REG_OCPWM_HRC base)) * 1000000000 + ucast (clk_rate pwm) div 2)
         div ucast (clk_rate pwm)"
    "polarity state' = PWM_POLARITY_INVERSED"
    "enabled state' = bit (mem s (REG_OCPWM_CTRL base)) 0"
    "mem s' = mem s"
proof -
  note eq = get_state_returns [OF assms, of state s]
  show thesis
    by (rule that [OF eq]) simp_all
qed

text \<open>Channel 0 of the StarFive controller is the base of the window.\<close>

lemma jh7110_ch0: "ch_base jh7110_pwm 0 = Inr 0x120D0000"
  by (simp add: ch_base_def jh7110_pwm_def jh71x0_pwm_data_def
                starfive_jh71x0_get_ch_base_def)

lemmas reg_defs =
  REG_OCPWM_LRC_def REG_OCPWM_HRC_def REG_OCPWM_CNTR_def REG_OCPWM_CTRL_def

text \<open>
  Adding 4 to a channel index above 3 keeps it above 3 and keeps its residue, as long
  as the \<open>unsigned int\<close> does not wrap.
\<close>

lemma ch_plus4:
  fixes c :: u32
  assumes "4 \<le> c" "c \<le> 0xFFFFFFFB"
  shows "4 \<le> c + 4" "(c + 4) mod 4 = c mod 4"
proof -
  have c: "unat c \<le> 4294967291" using assms(2) by (simp add: word_le_nat_alt)
  then have u: "unat (c + 4) = unat c + 4" by (simp add: unat_word_ariths)
  then show "4 \<le> c + 4" by (simp add: word_le_nat_alt)
  show "(c + 4) mod 4 = c mod 4"
    by (rule word_unat_eq_iff [THEN iffD2]) (simp add: unat_mod u)
qed

text \<open>
  \<open>probe\<close> with a usable clock registers the chip, and the \<open>data\<close> pointer of the
  device it registers is either NULL or the StarFive variant data: the match table has
  no other entry.
\<close>

lemma probe_in_service:
  assumes "of_match_device ocores_pwm_of_match pdev = Some d"
      and "\<not> kzalloc_fails pdev"
      and "ioremap_resource pdev = Inr r"
      and "clk_get_enabled pdev = Inr rate"
      and "(ucast rate :: u32) \<noteq> 0"
      and "0 \<le> pwmchip_add pdev"
  shows "ocores_pwm_probe pdev s =
           (0, Some \<lparr>data = d, regs = r, clk_rate = ucast rate\<rparr>,
            s\<lparr>trace := trace s @ [Reset_control_deassert, Devm_pwmchip_add (pwmchip_add pdev)]\<rparr>)"
  using assms by (simp add: ocores_pwm_probe_def log_event_def Let_def)

lemma of_match_data:
  assumes "of_match_device ocores_pwm_of_match pdev = Some d"
  shows "d = None \<or> d = Some jh71x0_pwm_data"
  using assms
  by (auto simp add: of_match_device_def ocores_pwm_of_match_def split: if_splits)

lemma probed_device_data:
  assumes "ocores_pwm_probe pdev s = (r, Some pwm, s')"
  shows "data pwm = None \<or> data pwm = Some jh71x0_pwm_data"
proof (cases "of_match_device ocores_pwm_of_match pdev")
  case None
  with assms show ?thesis by (simp add: ocores_pwm_probe_def)
next
  case (Some d)
  from assms Some have "data pwm = d"
    by (auto simp add: ocores_pwm_probe_def Let_def split: if_splits sum.splits)
  with of_match_data [OF Some] show ?thesis by simp
qed

section \<open>Round trip of \<open>apply\<close> and \<open>get_state\<close>\<close>

text \<open>
  Claim C1, as stated, fails: on the 24 MHz controller a requested period of 200 s needs
  4 800 000 000 ticks, which the 32-bit \<open>period_data\<close> cuts to 505 032 704, and
  \<open>get_state\<close> then reports 21 043 029 333 ns, far more than the rounding unit of
  42 ns away from the 200 000 000 000 ns requested.
\<close>

theorem round_trip_counterexample:
  "ocores_pwm_apply jh7110_pwm 0 long_state idle_window =
     Inr (0, idle_window
          \<lparr>mem := (mem idle_window)
             (0x120D0008 := 505032704, 0x120D0004 := 0, 0x120D0000 := 0, 0x120D000C := 9),
           trace := [Writel 505032704 0x120D0008, Writel 0 0x120D0004, Writel 0 0x120D0000,
                     Readl 0x120D000C, Writel 9 0x120D000C]\<rparr>)
   \<and> ocores_pwm_get_state jh7110_pwm 0 long_state
       (idle_window
          \<lparr>mem := (mem idle_window)
             (0x120D0008 := 505032704, 0x120D0004 := 0, 0x120D0000 := 0, 0x120D000C := 9),
           trace := [Writel 505032704 0x120D0008, Writel 0 0x120D0004, Writel 0 0x120D0000,
                     Readl 0x120D000C, Writel 9 0x120D000C]\<rparr>) =
     Inr (0, long_state\<lparr>period := 21043029333\<rparr>,
          idle_window
          \<lparr>mem := (mem idle_window)
             (0x120D0008 := 505032704, 0x120D0004 := 0, 0x120D0000 := 0, 0x120D000C := 9),
           trace := [Writel 505032704 0x120D0008, Writel 0 0x120D0004, Writel 0 0x120D0000,
                     Readl 0x120D000C, Writel 9 0x120D000C,
                     Readl 0x120D0008, Readl 0x120D0004, Readl 0x120D000C]\<rparr>)
   \<and> rounding_unit (unat (clk_rate jh7110_pwm)) = 42
   \<and> \<not> unat (period long_state)
         \<le> unat (21043029333 :: u64) + rounding_unit (unat (clk_rate jh7110_pwm))"
proof -
  have pol: "polarity long_state = PWM_POLARITY_INVERSED" by (simp add: long_state_def)
  have clk: "clk_rate jh7110_pwm \<noteq> 0" by (simp add: jh7110_pwm_def)
  have w: "(4800000000 :: u32) = 505032704" by simp
  have a: "ocores_pwm_apply jh7110_pwm 0 long_state idle_window =
     Inr (0, idle_window
          \<lparr>mem := (mem idle_window)
             (0x120D0008 := 505032704, 0x120D0004 := 0, 0x120D0000 := 0, 0x120D000C := 9),
           trace := [Writel 505032704 0x120D0008, Writel 0 0x120D0004, Writel 0 0x120D0000,
                     Readl 0x120D000C, Writel 9 0x120D000C]\<rparr>)"
    unfolding apply_accepted [OF jh7110_ch0 pol]
    by (simp add: reg_defs OCPWM_EN_def OCPWM_OE_def BIT_def
                  long_state_def idle_window_def jh7110_pwm_def w)
  have g: "ocores_pwm_get_state jh7110_pwm 0 long_state
       (idle_window
          \<lparr>mem := (mem idle_window)
             (0x120D0008 := 505032704, 0x120D0004 := 0, 0x120D0000 := 0, 0x120D000C := 9),
           trace := [Writel 505032704 0x120D0008, Writel 0 0x120D0004, Writel 0 0x120D0000,
                     Readl 0x120D000C, Writel 9 0x120D000C]\<rparr>) =
     Inr (0, long_state\<lparr>period := 21043029333\<rparr>,
          idle_window
          \<lparr>mem := (mem idle_window)
             (0x120D0008 := 505032704, 0x120D0004 := 0, 0x120D0000 := 0, 0x120D000C := 9),
           trace := [Writel 505032704 0x120D0008, Writel 0 0x120D0004, Writel 0 0x120D0000,
                     Readl 0x120D000C, Writel 9 0x120D000C,
                     Readl 0x120D0008, Readl 0x120D0004, Readl 0x120D000C]\<rparr>)"
    unfolding get_state_returns [OF jh7110_ch0 clk]
    by (simp add: reg_defs long_state_def idle_window_def jh7110_pwm_def bit_0)
  have u: "rounding_unit (unat (clk_rate jh7110_pwm)) = 42"
    by (simp add: rounding_unit_def jh7110_pwm_def)
  have n: "\<not> unat (period long_state)
             \<le> unat (21043029333 :: u64) + rounding_unit (unat (clk_rate jh7110_pwm))"
    by (simp add: u long_state_def)
  from a g u n show ?thesis by blast
qed

text \<open>
  Claim C1, amended: for every request with the inversed polarity whose period and
  duty tick counts fit the 32-bit registers, and every non-zero clock rate, \<open>apply\<close>
  followed by \<open>get_state\<close> on the same channel both return 0, the period and the duty
  cycle read back are each within \<open>ceil(10^9 / clk_rate)\<close> nanoseconds of the requested
  ones, and the enabled flag and the polarity are the requested ones.
\<close>

theorem apply_get_state_round_trip:
  assumes base: "ch_base pwm hwpwm = Inr base"
      and pol: "polarity state = PWM_POLARITY_INVERSED"
      and clk: "clk_rate pwm \<noteq> 0"
      and fitp: "round_to_nearest (unat (period state) * unat (clk_rate pwm)) 1000000000 < 2 ^ 32"
      and fitd: "round_to_nearest (unat (duty_cycle state) * unat (clk_rate pwm)) 1000000000 < 2 ^ 32"
  shows "\<exists>s1 state' s2.
           ocores_pwm_apply pwm hwpwm state s = Inr (0, s1) \<and>
           ocores_pwm_get_state pwm hwpwm out s1 = Inr (0, state', s2) \<and>
           unat (period state') \<le> unat (period state) + rounding_unit (unat (clk_rate pwm)) \<and>
           unat (period state) \<le> unat (period state') + rounding_unit (unat (clk_rate pwm)) \<and>
           unat (duty_cycle state') \<le> unat (duty_cycle state) + rounding_unit (unat (clk_rate pwm)) \<and>
           unat (duty_cycle state) \<le> unat (duty_cycle state') + rounding_unit (unat (clk_rate pwm)) \<and>
           enabled state' = enabled state \<and>
           polarity state' = polarity state"
proof -
  let ?c = "unat (clk_rate pwm)"
  have cpos: "0 < ?c" using clk by (simp add: unat_gt_0)
  obtain s1 c where a: "ocores_pwm_apply pwm hwpwm state s = Inr (0, s1)"
    and lrc: "mem s1 (REG_OCPWM_LRC base) =
                ucast ((period state * ucast (clk_rate pwm) + 500000000) div 1000000000)"
    and hrc: "mem s1 (REG_OCPWM_HRC base) =
                ucast ((duty_cycle state * ucast (clk_rate pwm) + 500000000) div 1000000000)"
    and cntr: "mem s1 (REG_OCPWM_CNTR base) = 0"
    and ctrl: "mem s1 (REG_OCPWM_CTRL base) = c"
    and bits: "\<And>n. bit c n =
       (if enabled state then n = 0 \<or> n = 3 \<or> bit (mem s (REG_OCPWM_CTRL base)) n
        else n \<noteq> 0 \<and> n \<noteq> 3 \<and> bit (mem s (REG_OCPWM_CTRL base)) n)"
    and tr: "trace s1 = trace s @
       [Writel (ucast ((period state * ucast (clk_rate pwm) + 500000000) div 1000000000))
          (REG_OCPWM_LRC base),
        Writel (ucast ((duty_cycle state * ucast (clk_rate pwm) + 500000000) div 1000000000))
          (REG_OCPWM_HRC base),
        Writel 0 (REG_OCPWM_CNTR base),
        Readl (REG_OCPWM_CTRL base),
        Writel c (REG_OCPWM_CTRL base)]"
    by (rule apply_effect [OF base pol, of s]) blast
  obtain state' s2 where g: "ocores_pwm_get_state pwm hwpwm out s1 = Inr (0, state', s2)"
    and p': "period state' =
               (ucast (mem s1 (REG_OCPWM_LRC base)) * 1000000000 + ucast (clk_rate pwm) div 2)
                 div ucast (clk_rate pwm)"
    and d': "duty_cycle state' =
               (ucast (mem s1 (REG_OCPWM_HRC base)) * 1000000000 + ucast (clk_rate pwm) div 2)
                 div ucast (clk_rate pwm)"
    and o': "polarity state' = PWM_POLARITY_INVERSED"
    and e': "enabled state' = bit (mem s1 (REG_OCPWM_CTRL base)) 0"
    and m': "mem s2 = mem s1"
    by (rule get_state_effect [OF base clk, of out s1]) blast
  have "unat (period state') =
          round_to_nearest (round_to_nearest (unat (period state) * ?c) 1000000000 * 1000000000) ?c"
    by (simp add: p' lrc nanoseconds_exact [OF clk] ticks_exact [OF fitp])
  then have P: "unat (period state') \<le> unat (period state) + rounding_unit ?c \<and>
                unat (period state) \<le> unat (period state') + rounding_unit ?c"
    using round_trip_nat [OF cpos, of "unat (period state)"] by simp
  have "unat (duty_cycle state') =
          round_to_nearest (round_to_nearest (unat (duty_cycle state) * ?c) 1000000000 * 1000000000) ?c"
    by (simp add: d' hrc nanoseconds_exact [OF clk] ticks_exact [OF fitd])
  then have D: "unat (duty_cycle state') \<le> unat (duty_cycle state) + rounding_unit ?c \<and>
                unat (duty_cycle state) \<le> unat (duty_cycle state') + rounding_unit ?c"
    using round_trip_nat [OF cpos, of "unat (duty_cycle state)"] by simp
  have E: "enabled state' = enabled state"
    by (simp add: e' ctrl bits)
  from a g P D E o' pol show ?thesis by auto
qed

theorem apply_get_state_round_trip_witness:
  "ch_base jh7110_pwm 0 = Inr 0x120D0000
   \<and> polarity ms_state = PWM_POLARITY_INVERSED
   \<and> clk_rate jh7110_pwm \<noteq> 0
   \<and> round_to_nearest (unat (period ms_state) * unat (clk_rate jh7110_pwm)) 1000000000 = 24000
   \<and> round_to_nearest (unat (duty_cycle ms_state) * unat (clk_rate jh7110_pwm)) 1000000000 = 6000
   \<and> (\<exists>s1 state' s2.
           ocores_pwm_apply jh7110_pwm 0 ms_state idle_window = Inr (0, s1) \<and>
           ocores_pwm_get_state jh7110_pwm 0 normal_state s1 = Inr (0, state', s2) \<and>
           unat (period state') \<le> 1000000 + 42 \<and>
           1000000 \<le> unat (period state') + 42 \<and>
           unat (duty_cycle state') \<le> 250000 + 42 \<and>
           250000 \<le> unat (duty_cycle state') + 42 \<and>
           enabled state' = True \<and>
           polarity state' = PWM_POLARITY_INVERSED)"
proof -
  have pol: "polarity ms_state = PWM_POLARITY_INVERSED" by (simp add: ms_state_def)
  have clk: "clk_rate jh7110_pwm \<noteq> 0" by (simp add: jh7110_pwm_def)
  have rp: "round_to_nearest (unat (period ms_state) * unat (clk_rate jh7110_pwm)) 1000000000 = 24000"
    by (simp add: round_to_nearest_def ms_state_def jh7110_pwm_def)
  have rd: "round_to_nearest (unat (duty_cycle ms_state) * unat (clk_rate jh7110_pwm)) 1000000000 = 6000"
    by (simp add: round_to_nearest_def ms_state_def jh7110_pwm_def)
  have fitp: "round_to_nearest (unat (period ms_state) * unat (clk_rate jh7110_pwm)) 1000000000 < 2 ^ 32"
    by (simp add: rp)
  have fitd: "round_to_nearest (unat (duty_cycle ms_state) * unat (clk_rate jh7110_pwm)) 1000000000 < 2 ^ 32"
    by (simp add: rd)
  have u: "rounding_unit (unat (clk_rate jh7110_pwm)) = 42"
    by (simp add: rounding_unit_def jh7110_pwm_def)
  have v: "unat (period ms_state) = 1000000" "unat (duty_cycle ms_state) = 250000"
    "enabled ms_state = True"
    by (simp_all add: ms_state_def)
  from apply_get_state_round_trip [OF jh7110_ch0 pol clk fitp fitd, of idle_window normal_state]
  have "\<exists>s1 state' s2.
           ocores_pwm_apply jh7110_pwm 0 ms_state idle_window = Inr (0, s1) \<and>
           ocores_pwm_get_state jh7110_pwm 0 normal_state s1 = Inr (0, state', s2) \<and>
           unat (period state') \<le> 1000000 + 42 \<and>
           1000000 \<le> unat (period state') + 42 \<and>
           unat (duty_cycle state') \<le> 250000 + 42 \<and>
           250000 \<le> unat (duty_cycle state') + 42 \<and>
           enabled state' = True \<and>
           polarity state' = PWM_POLARITY_INVERSED"
    unfolding u v pol .
  with jh7110_ch0 pol clk rp rd show ?thesis by blast
qed

section \<open>Nanoseconds to ticks in \<open>apply\<close>\<close>

text \<open>
  Claim C2, as stated, fails: on the 24 MHz controller a requested period of
  \<open>10^12\<close> ns has the rounded tick count 24 000 000 000, but the \<open>u64\<close> product
  \<open>10^12 * 24000000\<close> wraps before the division and the quotient is then cut to 32
  bits, so LRC receives 1 258 288 630, which is neither that count nor its low 32 bits.
\<close>

theorem apply_ticks_counterexample:
  "ocores_pwm_apply jh7110_pwm 0 huge_state idle_window =
     Inr (0, idle_window
          \<lparr>mem := (mem idle_window)
             (0x120D0008 := 1258288630, 0x120D0004 := 0, 0x120D0000 := 0, 0x120D000C := 9),
           trace := [Writel 1258288630 0x120D0008, Writel 0 0x120D0004, Writel 0 0x120D0000,
                     Readl 0x120D000C, Writel 9 0x120D000C]\<rparr>)
   \<and> round_to_nearest (unat (period huge_state) * unat (clk_rate jh7110_pwm)) 1000000000
       = 24000000000
   \<and> unat (1258288630 :: u32) \<noteq> 24000000000
   \<and> unat (1258288630 :: u32) \<noteq> 24000000000 mod 2 ^ 32"
proof -
  have pol: "polarity huge_state = PWM_POLARITY_INVERSED" by (simp add: huge_state_def)
  have w: "(5553255926 :: u32) = 1258288630" by simp
  have a: "ocores_pwm_apply jh7110_pwm 0 huge_state idle_window =
     Inr (0, idle_window
          \<lparr>mem := (mem idle_window)
             (0x120D0008 := 1258288630, 0x120D0004 := 0, 0x120D0000 := 0, 0x120D000C := 9),
           trace := [Writel 1258288630 0x120D0008, Writel 0 0x120D0004, Writel 0 0x120D0000,
                     Readl 0x120D000C, Writel 9 0x120D000C]\<rparr>)"
    unfolding apply_accepted [OF jh7110_ch0 pol]
    by (simp add: reg_defs OCPWM_EN_def OCPWM_OE_def BIT_def
                  huge_state_def idle_window_def jh7110_pwm_def w)
  have r: "round_to_nearest (unat (period huge_state) * unat (clk_rate jh7110_pwm)) 1000000000
             = 24000000000"
    by (simp add: round_to_nearest_def huge_state_def jh7110_pwm_def)
  have n: "unat (1258288630 :: u32) \<noteq> 24000000000"
          "unat (1258288630 :: u32) \<noteq> 24000000000 mod 2 ^ 32"
    by simp_all
  from a r n show ?thesis by blast
qed

text \<open>
  Claim C2, amended: in a successful \<open>apply\<close>, for every clock rate, whenever
  \<open>round_to_nearest(period * clk_rate / 10^9)\<close> is below \<open>2^32\<close> the value written to
  LRC is exactly that count, and likewise for the duty cycle and HRC; the product is
  formed in wrapping 64-bit arithmetic and the quotient is cut to 32 bits. With a
  24 MHz clock a period of 1 000 000 ns gives 24 000 ticks.
\<close>

theorem apply_ticks_when_fitting:
  assumes base: "ch_base pwm hwpwm = Inr base"
      and pol: "polarity state = PWM_POLARITY_INVERSED"
  shows "\<exists>s'. ocores_pwm_apply pwm hwpwm state s = Inr (0, s') \<and>
           (round_to_nearest (unat (period state) * unat (clk_rate pwm)) 1000000000 < 2 ^ 32 \<longrightarrow>
              unat (mem s' (REG_OCPWM_LRC base))
                = round_to_nearest (unat (period state) * unat (clk_rate pwm)) 1000000000) \<and>
           (round_to_nearest (unat (duty_cycle state) * unat (clk_rate pwm)) 1000000000 < 2 ^ 32 \<longrightarrow>
              unat (mem s' (REG_OCPWM_HRC base))
                = round_to_nearest (unat (duty_cycle state) * unat (clk_rate pwm)) 1000000000)"
proof -
  obtain s' c where a: "ocores_pwm_apply pwm hwpwm state s = Inr (0, s')"
    and lrc: "mem s' (REG_OCPWM_LRC base) =
                ucast ((period state * ucast (clk_rate pwm) + 500000000) div 1000000000)"
    and hrc: "mem s' (REG_OCPWM_HRC base) =
                ucast ((duty_cycle state * ucast (clk_rate pwm) + 500000000) div 1000000000)"
    by (rule apply_effect [OF base pol, of s]) blast
  show ?thesis
    using a by (simp add: lrc hrc ticks_exact)
qed

theorem apply_ticks_when_fitting_witness:
  "ch_base jh7110_pwm 0 = Inr 0x120D0000
   \<and> polarity ms_state = PWM_POLARITY_INVERSED
   \<and> (\<exists>s'. ocores_pwm_apply jh7110_pwm 0 ms_state idle_window = Inr (0, s') \<and>
          unat (mem s' (REG_OCPWM_LRC 0x120D0000)) = 24000 \<and>
          unat (mem s' (REG_OCPWM_HRC 0x120D0000)) = 6000)"
proof -
  have pol: "polarity ms_state = PWM_POLARITY_INVERSED" by (simp add: ms_state_def)
  have rp: "round_to_nearest (unat (period ms_state) * unat (clk_rate jh7110_pwm)) 1000000000 = 24000"
    by (simp add: round_to_nearest_def ms_state_def jh7110_pwm_def)
  have rd: "round_to_nearest (unat (duty_cycle ms_state) * unat (clk_rate jh7110_pwm)) 1000000000 = 6000"
    by (simp add: round_to_nearest_def ms_state_def jh7110_pwm_def)
  from apply_ticks_when_fitting [OF jh7110_ch0 pol, of idle_window]
  have "\<exists>s'. ocores_pwm_apply jh7110_pwm 0 ms_state idle_window = Inr (0, s') \<and>
          unat (mem s' (REG_OCPWM_LRC 0x120D0000)) = 24000 \<and>
          unat (mem s' (REG_OCPWM_HRC 0x120D0000)) = 6000"
    unfolding rp rd by simp
  with jh7110_ch0 pol show ?thesis by blast
qed

section \<open>Ticks to nanoseconds in \<open>get_state\<close>\<close>

text \<open>
  Claim C3: once the channel base is resolved, for every non-zero clock rate and all
  register contents \<open>get_state\<close> returns 0 with
  \<open>period = round_to_nearest(LRC * 10^9 / clk_rate)\<close> and
  \<open>duty_cycle = round_to_nearest(HRC * 10^9 / clk_rate)\<close>, neither wrapping in 64 bits,
  \<open>enabled\<close> equal to bit 0 of CTRL and the polarity inversed; the registers are left
  as they were.
\<close>

theorem get_state_conversion:
  assumes base: "ch_base pwm hwpwm = Inr base"
      and clk: "clk_rate pwm \<noteq> 0"
  shows "\<exists>state' s'.
           ocores_pwm_get_state pwm hwpwm state s = Inr (0, state', s') \<and>
           unat (period state')
             = round_to_nearest (unat (mem s (REG_OCPWM_LRC base)) * 1000000000) (unat (clk_rate pwm)) \<and>
           unat (duty_cycle state')
             = round_to_nearest (unat (mem s (REG_OCPWM_HRC base)) * 1000000000) (unat (clk_rate pwm)) \<and>
           enabled state' = bit (mem s (REG_OCPWM_CTRL base)) 0 \<and>
           polarity state' = PWM_POLARITY_INVERSED \<and>
           mem s' = mem s"
proof -
  obtain state' s' where g: "ocores_pwm_get_state pwm hwpwm state s = Inr (0, state', s')"
    and p': "period state' =
               (ucast (mem s (REG_OCPWM_LRC base)) * 1000000000 + ucast (clk_rate pwm) div 2)
                 div ucast (clk_rate pwm)"
    and d': "duty_cycle state' =
               (ucast (mem s (REG_OCPWM_HRC base)) * 1000000000 + ucast (clk_rate pwm) div 2)
                 div ucast (clk_rate pwm)"
    and o': "polarity state' = PWM_POLARITY_INVERSED"
    and e': "enabled state' = bit (mem s (REG_OCPWM_CTRL base)) 0"
    and m': "mem s' = mem s"
    by (rule get_state_effect [OF base clk, of state s]) blast
  have "unat (period state')
          = round_to_nearest (unat (mem s (REG_OCPWM_LRC base)) * 1000000000) (unat (clk_rate pwm))"
    by (simp add: p' nanoseconds_exact [OF clk])
  moreover have "unat (duty_cycle state')
          = round_to_nearest (unat (mem s (REG_OCPWM_HRC base)) * 1000000000) (unat (clk_rate pwm))"
    by (simp add: d' nanoseconds_exact [OF clk])
  ultimately show ?thesis using g o' e' m' by blast
qed

theorem get_state_conversion_witness:
  "ch_base jh7110_pwm 0 = Inr 0x120D0000
   \<and> clk_rate jh7110_pwm \<noteq> 0
   \<and> (\<exists>state' s'.
         ocores_pwm_get_state jh7110_pwm 0 normal_state running_window = Inr (0, state', s') \<and>
         unat (period state') = 1000000 \<and>
         unat (duty_cycle state') = 250000 \<and>
         enabled state' = True \<and>
         polarity state' = PWM_POLARITY_INVERSED \<and>
         mem s' = mem running_window)"
proof -
  have clk: "clk_rate jh7110_pwm \<noteq> 0" by (simp add: jh7110_pwm_def)
  have v: "round_to_nearest (unat (mem running_window (REG_OCPWM_LRC 0x120D0000)) * 1000000000)
             (unat (clk_rate jh7110_pwm)) = 1000000"
    "round_to_nearest (unat (mem running_window (REG_OCPWM_HRC 0x120D0000)) * 1000000000)
             (unat (clk_rate jh7110_pwm)) = 250000"
    "bit (mem running_window (REG_OCPWM_CTRL 0x120D0000)) 0 = True"
    by (simp_all add: round_to_nearest_def running_window_def jh7110_pwm_def reg_defs bit_0)
  from get_state_conversion [OF jh7110_ch0 clk, of normal_state running_window]
  have "\<exists>state' s'.
         ocores_pwm_get_state jh7110_pwm 0 normal_state running_window = Inr (0, state', s') \<and>
         unat (period state') = 1000000 \<and>
         unat (duty_cycle state') = 250000 \<and>
         enabled state' = True \<and>
         polarity state' = PWM_POLARITY_INVERSED \<and>
         mem s' = mem running_window"
    unfolding v .
  with jh7110_ch0 clk show ?thesis by blast
qed

section \<open>Validation in \<open>apply\<close>\<close>

text \<open>
  Claim C4: once the channel base is resolved, \<open>apply\<close> returns \<open>-EINVAL\<close> if and only
  if the requested polarity is not the inversed one, and returns 0 otherwise whatever
  the period and the duty cycle are; when it rejects the request the register window
  is untouched: no register is written or read.
\<close>

theorem apply_polarity_validation:
  assumes base: "ch_base pwm hwpwm = Inr base"
  shows "\<exists>r s'. ocores_pwm_apply pwm hwpwm state s = Inr (r, s') \<and>
           (r = - EINVAL \<longleftrightarrow> polarity state \<noteq> PWM_POLARITY_INVERSED) \<and>
           (polarity state = PWM_POLARITY_INVERSED \<longrightarrow> r = 0) \<and>
           (polarity state \<noteq> PWM_POLARITY_INVERSED \<longrightarrow> s' = s)"
proof (cases "polarity state = PWM_POLARITY_INVERSED")
  case True
  obtain s' c where "ocores_pwm_apply pwm hwpwm state s = Inr (0, s')"
    by (rule apply_effect [OF base True, of s]) blast
  with True show ?thesis by (simp add: EINVAL_def)
next
  case False
  then show ?thesis by (simp add: apply_rejected [OF base])
qed

theorem apply_polarity_validation_witness:
  "ch_base jh7110_pwm 0 = Inr 0x120D0000
   \<and> polarity normal_state \<noteq> PWM_POLARITY_INVERSED
   \<and> ocores_pwm_apply jh7110_pwm 0 normal_state running_window = Inr (- 22, running_window)"
proof -
  have pol: "polarity normal_state \<noteq> PWM_POLARITY_INVERSED" by (simp add: normal_state_def)
  from apply_polarity_validation [OF jh7110_ch0, of normal_state running_window] pol
  have "ocores_pwm_apply jh7110_pwm 0 normal_state running_window = Inr (- 22, running_window)"
    by (auto simp add: EINVAL_def)
  with jh7110_ch0 pol show ?thesis by blast
qed

section \<open>Resolving the channel base\<close>

text \<open>
  Claim C5 asks that under the default policy channel \<open>i\<close> resolves to
  \<open>controller_base + i * 0x10\<close>. The code does not do so on the device that uses the
  default policy: \<open>probe\<close> succeeds for the generic compatible string and registers a
  device whose \<open>data\<close> pointer is NULL, and resolving channel 1 on that device reads
  \<open>pwm->data->get_ch_base\<close> through the NULL pointer instead of yielding
  \<open>0x120D0010\<close>; \<open>get_state\<close> and \<open>apply\<close> stop there.
\<close>

theorem generic_ch_base_null_dereference:
  "ocores_pwm_probe generic_pdev idle_window =
     (0, Some generic_pwm,
      \<lparr>mem = mem idle_window, trace = [Reset_control_deassert, Devm_pwmchip_add 0]\<rparr>)
   \<and> ch_base generic_pwm 1 = Inl NULL_POINTER_DEREFERENCE
   \<and> ch_base generic_pwm 1 \<noteq> Inr (regs generic_pwm + 1 * 0x10)
   \<and> ocores_pwm_get_state generic_pwm 1 ms_state idle_window = Inl NULL_POINTER_DEREFERENCE
   \<and> ocores_pwm_apply generic_pwm 1 ms_state idle_window = Inl NULL_POINTER_DEREFERENCE"
proof -
  have p: "ocores_pwm_probe generic_pdev idle_window =
     (0, Some generic_pwm,
      \<lparr>mem = mem idle_window, trace = [Reset_control_deassert, Devm_pwmchip_add 0]\<rparr>)"
    by (simp add: ocores_pwm_probe_def log_event_def Let_def of_match_device_def
                  ocores_pwm_of_match_def generic_pdev_def generic_pwm_def idle_window_def)
  have d: "data generic_pwm = None" by (simp add: generic_pwm_def)
  have c: "ch_base generic_pwm 1 = Inl NULL_POINTER_DEREFERENCE"
    by (rule ch_base_null_data [OF d])
  from p c null_data_faults [OF d, of 1 ms_state idle_window] show ?thesis by simp
qed

text \<open>
  Claim C6: the StarFive resolver maps a channel index \<open>i\<close> below 4 to
  \<open>base + i * 0x10\<close> and an index from 4 to 7 to \<open>base + (i % 4) * 0x10 + 0x8000\<close>,
  for every base.
\<close>

theorem jh71x0_ch_base_banks:
  "(i < 4 \<longrightarrow> starfive_jh71x0_get_ch_base base i = base + ucast i * 0x10) \<and>
   (4 \<le> i \<and> i < 8 \<longrightarrow>
      starfive_jh71x0_get_ch_base base i = base + ucast (i mod 4) * 0x10 + 0x8000)"
  by (simp add: jh71x0_lower jh71x0_upper)

theorem jh71x0_ch_base_banks_witness:
  "(2::u32) < 4 \<and> starfive_jh71x0_get_ch_base 0x120D0000 2 = 0x120D0020
   \<and> (4::u32) \<le> 6 \<and> (6::u32) < 8 \<and> starfive_jh71x0_get_ch_base 0x120D0000 6 = 0x120D8020"
  using jh71x0_ch_base_banks [of 2 "0x120D0000"] jh71x0_ch_base_banks [of 6 "0x120D0000"]
  by simp

text \<open>
  Claim C10, as stated, fails at the top of the index range: for \<open>c = 0xFFFFFFFF\<close>
  the \<open>unsigned int\<close> \<open>c + 4\<close> is 3, which resolves into the primary bank, while \<open>c\<close>
  resolves into the secondary one.
\<close>

theorem jh71x0_ch_base_aliasing_counterexample:
  "(4::u32) \<le> 0xFFFFFFFF
   \<and> starfive_jh71x0_get_ch_base 0x120D0000 0xFFFFFFFF = 0x120D8030
   \<and> starfive_jh71x0_get_ch_base 0x120D0000 (0xFFFFFFFF + 4) = 0x120D0030
   \<and> starfive_jh71x0_get_ch_base 0x120D0000 0xFFFFFFFF
       \<noteq> starfive_jh71x0_get_ch_base 0x120D0000 (0xFFFFFFFF + 4)"
  by (simp add: starfive_jh71x0_get_ch_base_def)

text \<open>
  Claim C10, amended: the StarFive resolver returns \<open>base + (c % 4) * 0x10 + 0x8000\<close>
  for every channel index \<open>c\<close> of at least 4, also beyond the 8 declared channels;
  hence it resolves \<open>c\<close> and \<open>c + 4\<close> to the same block whenever \<open>c + 4\<close> does not
  wrap (\<open>c \<le> 0xFFFFFFFB\<close>), and any two indices of at least 4 that are congruent
  modulo 4 to the same block of the secondary bank.
\<close>

theorem jh71x0_ch_base_aliasing:
  "(4 \<le> c \<longrightarrow> starfive_jh71x0_get_ch_base base c = base + ucast (c mod 4) * 0x10 + 0x8000) \<and>
   (4 \<le> c \<and> c \<le> 0xFFFFFFFB \<longrightarrow>
      starfive_jh71x0_get_ch_base base (c + 4) = starfive_jh71x0_get_ch_base base c) \<and>
   (4 \<le> c \<and> 4 \<le> d \<and> c mod 4 = d mod 4 \<longrightarrow>
      starfive_jh71x0_get_ch_base base c = starfive_jh71x0_get_ch_base base d)"
  by (simp add: jh71x0_upper ch_plus4)

theorem jh71x0_ch_base_aliasing_witness:
  "(4::u32) \<le> 9 \<and> (9::u32) \<le> 0xFFFFFFFB \<and> (4::u32) \<le> 21 \<and> (9::u32) mod 4 = 21 mod 4
   \<and> starfive_jh71x0_get_ch_base 0x120D0000 9 = 0x120D8010
   \<and> starfive_jh71x0_get_ch_base 0x120D0000 (9 + 4) = starfive_jh71x0_get_ch_base 0x120D0000 9
   \<and> starfive_jh71x0_get_ch_base 0x120D0000 9 = starfive_jh71x0_get_ch_base 0x120D0000 21"
proof -
  have h: "(4::u32) \<le> 9" "(9::u32) \<le> 0xFFFFFFFB" "(4::u32) \<le> 21" "(9::u32) mod 4 = 21 mod 4"
    by simp_all
  note t = jh71x0_ch_base_aliasing [of 9 "0x120D0000" 21]
  from t h have "starfive_jh71x0_get_ch_base 0x120D0000 9
                   = 0x120D0000 + ucast ((9::u32) mod 4) * 0x10 + 0x8000"
    by blast
  then have a: "starfive_jh71x0_get_ch_base 0x120D0000 9 = 0x120D8010" by simp
  from t h have b: "starfive_jh71x0_get_ch_base 0x120D0000 (9 + 4)
                      = starfive_jh71x0_get_ch_base 0x120D0000 9"
    by blast
  from t h have c: "starfive_jh71x0_get_ch_base 0x120D0000 9
                      = starfive_jh71x0_get_ch_base 0x120D0000 21"
    by blast
  from h a b c show ?thesis by blast
qed

section \<open>The register writes of \<open>apply\<close>\<close>

text \<open>
  Claim C7: a successful \<open>apply\<close> with \<open>enabled\<close> set leaves in CTRL the previous value
  with bits 0 (enable) and 3 (output enable) set and every other bit unchanged; with
  \<open>enabled\<close> clear it leaves the previous value with these two bits cleared and every
  other bit unchanged. From \<open>0b00100000\<close> an enabling \<open>apply\<close> gives \<open>0b00101001\<close>.
\<close>

theorem apply_ctrl_bits:
  assumes base: "ch_base pwm hwpwm = Inr base"
      and pol: "polarity state = PWM_POLARITY_INVERSED"
  shows "\<exists>s'. ocores_pwm_apply pwm hwpwm state s = Inr (0, s') \<and>
           (\<forall>n. bit (mem s' (REG_OCPWM_CTRL base)) n =
                  (if enabled state
                   then n = 0 \<or> n = 3 \<or> bit (mem s (REG_OCPWM_CTRL base)) n
                   else n \<noteq> 0 \<and> n \<noteq> 3 \<and> bit (mem s (REG_OCPWM_CTRL base)) n)) \<and>
           (enabled state \<and> mem s (REG_OCPWM_CTRL base) = 0x20 \<longrightarrow>
              mem s' (REG_OCPWM_CTRL base) = 0x29)"
proof -
  have eq: "ocores_pwm_apply pwm hwpwm state s = Inr (0,
       s\<lparr>mem := (mem s)
           (REG_OCPWM_LRC base :=
              ucast ((period state * ucast (clk_rate pwm) + 500000000) div 1000000000),
            REG_OCPWM_HRC base :=
              ucast ((duty_cycle state * ucast (clk_rate pwm) + 500000000) div 1000000000),
            REG_OCPWM_CNTR base := 0,
            REG_OCPWM_CTRL base :=
              (if enabled state
               then ucast (ucast (mem s (REG_OCPWM_CTRL base)) OR OCPWM_EN OR OCPWM_OE)
               else ucast (ucast (mem s (REG_OCPWM_CTRL base))
                             AND NOT (OCPWM_EN OR OCPWM_OE)))),
         trace := trace s @
           [Writel (ucast ((period state * ucast (clk_rate pwm) + 500000000) div 1000000000))
              (REG_OCPWM_LRC base),
            Writel (ucast ((duty_cycle state * ucast (clk_rate pwm) + 500000000) div 1000000000))
              (REG_OCPWM_HRC base),
            Writel 0 (REG_OCPWM_CNTR base),
            Readl (REG_OCPWM_CTRL base),
            Writel
              (if enabled state
               then ucast (ucast (mem s (REG_OCPWM_CTRL base)) OR OCPWM_EN OR OCPWM_OE)
               else ucast (ucast (mem s (REG_OCPWM_CTRL base))
                             AND NOT (OCPWM_EN OR OCPWM_OE)))
              (REG_OCPWM_CTRL base)]\<rparr>)" (is "_ = Inr (0, ?s')")
    by (rule apply_accepted [OF base pol])
  have bits: "\<forall>n. bit (mem ?s' (REG_OCPWM_CTRL base)) n =
                  (if enabled state
                   then n = 0 \<or> n = 3 \<or> bit (mem s (REG_OCPWM_CTRL base)) n
                   else n \<noteq> 0 \<and> n \<noteq> 3 \<and> bit (mem s (REG_OCPWM_CTRL base)) n)"
    by (simp add: ctrl_set_bits ctrl_clear_bits_nf)
  have ex: "enabled state \<and> mem s (REG_OCPWM_CTRL base) = 0x20 \<longrightarrow>
              mem ?s' (REG_OCPWM_CTRL base) = 0x29"
    by (simp add: OCPWM_EN_def OCPWM_OE_def BIT_def)
  from eq bits ex show ?thesis by blast
qed

theorem apply_ctrl_bits_witness:
  "ch_base jh7110_pwm 0 = Inr 0x120D0000
   \<and> polarity ms_state = PWM_POLARITY_INVERSED
   \<and> enabled ms_state
   \<and> mem inte_window (REG_OCPWM_CTRL 0x120D0000) = 0x20
   \<and> (\<exists>s'. ocores_pwm_apply jh7110_pwm 0 ms_state inte_window = Inr (0, s') \<and>
          mem s' (REG_OCPWM_CTRL 0x120D0000) = 0x29)"
proof -
  have pol: "polarity ms_state = PWM_POLARITY_INVERSED" by (simp add: ms_state_def)
  have en: "enabled ms_state" by (simp add: ms_state_def)
  have c: "mem inte_window (REG_OCPWM_CTRL 0x120D0000) = 0x20"
    by (simp add: inte_window_def reg_defs)
  from apply_ctrl_bits [OF jh7110_ch0 pol, of inte_window] en c
  have "\<exists>s'. ocores_pwm_apply jh7110_pwm 0 ms_state inte_window = Inr (0, s') \<and>
          mem s' (REG_OCPWM_CTRL 0x120D0000) = 0x29"
    by blast
  with jh7110_ch0 pol en c show ?thesis by blast
qed

text \<open>
  Claim C8: a successful \<open>apply\<close> writes the period tick count to LRC, then the duty
  tick count to HRC, then 0 to CNTR, before it reads and rewrites CTRL; afterwards LRC
  and HRC hold these counts and CNTR holds 0.
\<close>

theorem apply_write_sequence:
  assumes base: "ch_base pwm hwpwm = Inr base"
      and pol: "polarity state = PWM_POLARITY_INVERSED"
  shows "\<exists>s' c. ocores_pwm_apply pwm hwpwm state s = Inr (0, s') \<and>
           trace s' = trace s @
             [Writel (ucast ((period state * ucast (clk_rate pwm) + 500000000) div 1000000000))
                (REG_OCPWM_LRC base),
              Writel (ucast ((duty_cycle state * ucast (clk_rate pwm) + 500000000) div 1000000000))
                (REG_OCPWM_HRC base),
              Writel 0 (REG_OCPWM_CNTR base),
              Readl (REG_OCPWM_CTRL base),
              Writel c (REG_OCPWM_CTRL base)] \<and>
           mem s' (REG_OCPWM_LRC base)
             = ucast ((period state * ucast (clk_rate pwm) + 500000000) div 1000000000) \<and>
           mem s' (REG_OCPWM_HRC base)
             = ucast ((duty_cycle state * ucast (clk_rate pwm) + 500000000) div 1000000000) \<and>
           mem s' (REG_OCPWM_CNTR base) = 0"
proof -
  obtain s' c where "ocores_pwm_apply pwm hwpwm state s = Inr (0, s')"
    and "mem s' (REG_OCPWM_LRC base) =
           ucast ((period state * ucast (clk_rate pwm) + 500000000) div 1000000000)"
    and "mem s' (REG_OCPWM_HRC base) =
           ucast ((duty_cycle state * ucast (clk_rate pwm) + 500000000) div 1000000000)"
    and "mem s' (REG_OCPWM_CNTR base) = 0"
    and "trace s' = trace s @
       [Writel (ucast ((period state * ucast (clk_rate pwm) + 500000000) div 1000000000))
          (REG_OCPWM_LRC base),
        Writel (ucast ((duty_cycle state * ucast (clk_rate pwm) + 500000000) div 1000000000))
          (REG_OCPWM_HRC base),
        Writel 0 (REG_OCPWM_CNTR base),
        Readl (REG_OCPWM_CTRL base),
        Writel c (REG_OCPWM_CTRL base)]"
    by (rule apply_effect [OF base pol, of s]) blast
  then show ?thesis by blast
qed

theorem apply_write_sequence_witness:
  "ch_base jh7110_pwm 0 = Inr 0x120D0000
   \<and> polarity ms_state = PWM_POLARITY_INVERSED
   \<and> (\<exists>s' c. ocores_pwm_apply jh7110_pwm 0 ms_state running_window = Inr (0, s') \<and>
          trace s' = [Writel 24000 0x120D0008, Writel 6000 0x120D0004, Writel 0 0x120D0000,
                      Readl 0x120D000C, Writel c 0x120D000C] \<and>
          mem s' 0x120D0008 = 24000 \<and> mem s' 0x120D0004 = 6000 \<and> mem s' 0x120D0000 = 0)"
proof -
  have pol: "polarity ms_state = PWM_POLARITY_INVERSED" by (simp add: ms_state_def)
  have v: "(ucast ((period ms_state * ucast (clk_rate jh7110_pwm) + 500000000) div 1000000000) :: u32) = 24000"
    "(ucast ((duty_cycle ms_state * ucast (clk_rate jh7110_pwm) + 500000000) div 1000000000) :: u32) = 6000"
    "trace running_window = []"
    "REG_OCPWM_LRC 0x120D0000 = 0x120D0008" "REG_OCPWM_HRC 0x120D0000 = 0x120D0004"
    "REG_OCPWM_CNTR 0x120D0000 = 0x120D0000" "REG_OCPWM_CTRL 0x120D0000 = 0x120D000C"
    by (simp_all add: ms_state_def jh7110_pwm_def running_window_def reg_defs)
  from apply_write_sequence [OF jh7110_ch0 pol, of running_window]
  have "\<exists>s' c. ocores_pwm_apply jh7110_pwm 0 ms_state running_window = Inr (0, s') \<and>
          trace s' = [Writel 24000 0x120D0008, Writel 6000 0x120D0004, Writel 0 0x120D0000,
                      Readl 0x120D000C, Writel c 0x120D000C] \<and>
          mem s' 0x120D0008 = 24000 \<and> mem s' 0x120D0004 = 6000 \<and> mem s' 0x120D0000 = 0"
    unfolding v by simp
  with jh7110_ch0 pol show ?thesis by blast
qed

section \<open>A clock rate of zero at bring-up\<close>

text \<open>
  Claim C9: when \<open>probe\<close> gets as far as reading the clock rate and the rate stored in
  the \<open>u32\<close> field is zero (the field is unsigned: there is no negative rate), it
  returns \<open>-EINVAL\<close> after a warning, touches no register, does not call
  \<open>devm_pwmchip_add\<close> and sets no driver data.
\<close>

theorem probe_zero_clock_rate:
  assumes "of_match_device ocores_pwm_of_match pdev = Some d"
      and "\<not> kzalloc_fails pdev"
      and "ioremap_resource pdev = Inr r"
      and "clk_get_enabled pdev = Inr rate"
      and "(ucast rate :: u32) = 0"
  shows "ocores_pwm_probe pdev s =
           (- EINVAL, None, s\<lparr>trace := trace s @ [Reset_control_deassert, Dev_warn]\<rparr>)"
  using assms by (simp add: ocores_pwm_probe_def log_event_def)

theorem probe_zero_clock_rate_witness:
  "of_match_device ocores_pwm_of_match zero_rate_pdev = Some (Some jh71x0_pwm_data)
   \<and> \<not> kzalloc_fails zero_rate_pdev
   \<and> ioremap_resource zero_rate_pdev = Inr 0x120D0000
   \<and> clk_get_enabled zero_rate_pdev = Inr 0
   \<and> (ucast (0 :: u64) :: u32) = 0
   \<and> ocores_pwm_probe zero_rate_pdev idle_window =
       (- 22, None, \<lparr>mem = mem idle_window, trace = [Reset_control_deassert, Dev_warn]\<rparr>)"
proof -
  have m: "of_match_device ocores_pwm_of_match zero_rate_pdev = Some (Some jh71x0_pwm_data)"
    by (simp add: of_match_device_def ocores_pwm_of_match_def zero_rate_pdev_def)
  have k: "\<not> kzalloc_fails zero_rate_pdev" by (simp add: zero_rate_pdev_def)
  have i: "ioremap_resource zero_rate_pdev = Inr 0x120D0000" by (simp add: zero_rate_pdev_def)
  have c: "clk_get_enabled zero_rate_pdev = Inr 0" by (simp add: zero_rate_pdev_def)
  have z: "(ucast (0 :: u64) :: u32) = 0" by simp
  from probe_zero_clock_rate [OF m k i c z, of idle_window]
  have "ocores_pwm_probe zero_rate_pdev idle_window =
       (- 22, None, \<lparr>mem = mem idle_window, trace = [Reset_control_deassert, Dev_warn]\<rparr>)"
    by (simp add: EINVAL_def idle_window_def)
  with m k i c z show ?thesis by blast
qed

end
